theory Spec2Isabelle
  imports Main
begin

section \<open>Infinity Inspector: the normalisation pipeline of loader.py\<close>

text \<open>
  The functions of \<^verbatim>\<open>loader.py\<close> that turn a faction document into a flat table are
  embedded as HOL functions. A pandas data frame is given by the list of records it is built
  from, in order. A frame built from a non-empty list carries the columns the code reads;
  a frame built from the empty list has no column at all, so reading a column of it
  raises KeyError. A Python exception is a value of
  type \<open>error\<close>; a function that can raise returns \<open>error + 'a\<close>, with \<open>Inl\<close> for the
  exception.
\<close>

subsection \<open>Exceptions\<close>

datatype error = KeyError | IndexError | AttributeError

subsection \<open>Catalogs and references\<close>

text \<open>
  A catalog (\<^verbatim>\<open>skills_df\<close>, \<^verbatim>\<open>weapons_df\<close>, \<^verbatim>\<open>equipment_df\<close>, \<^verbatim>\<open>extras_df\<close>) is built
  by \<^verbatim>\<open>DataFramePlus\<close> from a list of records with the keys \<^verbatim>\<open>id\<close> and \<^verbatim>\<open>name\<close>: a
  list of (id, name) rows. Ids may repeat. The empty list gives a frame without the
  column \<^verbatim>\<open>id\<close>.
\<close>

type_synonym catalog = "(int \<times> string) list"

text \<open>
  An element of an id list is a JSON object with the optional keys \<^verbatim>\<open>id\<close> and
  \<^verbatim>\<open>extra\<close>, or \<^verbatim>\<open>null\<close>. A field is \<open>None\<close> when its key is absent.
\<close>

record reference =
  ref_id :: "int option"
  ref_extra :: "int list option"

type_synonym slot = "reference option"

text \<open>
  \<^verbatim>\<open>if id:\<close> tests the element itself (the loop variable is called \<^verbatim>\<open>id\<close>): \<^verbatim>\<open>None\<close>
  and the empty dict are falsy, every dict with a key is truthy.
\<close>

definition truthy :: "slot \<Rightarrow> bool" where
  "truthy e = (case e of None \<Rightarrow> False
               | Some r \<Rightarrow> ref_id r \<noteq> None \<or> ref_extra r \<noteq> None)"

text \<open>
  \<^verbatim>\<open>list(set(xs))\<close>: Python leaves the iteration order of a set unspecified, and CPython
  salts the hashes of strings anew in every process. The order is therefore a parameter
  of the model; all that is known of it is that it lists each element of the set once.
\<close>

type_synonym set_order = "string list \<Rightarrow> string list"

definition set_order_ok :: "set_order \<Rightarrow> bool" where
  "set_order_ok so = (\<forall>xs. set (so xs) = set xs \<and> distinct (so xs))"

text \<open>
  \<^verbatim>\<open>lookup[lookup['id'] == i]['name'].tolist()\<close>: the names of the rows with id \<open>i\<close>, in
  the order of the catalog; \<^verbatim>\<open>lookup['id']\<close> raises KeyError on a frame built from the
  empty list.
\<close>

definition names_with_id :: "catalog \<Rightarrow> int \<Rightarrow> error + string list" where
  "names_with_id lookup i =
     (if lookup = [] then Inl KeyError
      else Inr (map snd (filter (\<lambda>row. fst row = i) lookup)))"

text \<open>
  \<^verbatim>\<open>extras_lookup[extras_lookup['id'].isin(ex)]['name'].tolist()\<close>: the names of the rows
  whose id is in \<open>ex\<close>, in the order of the catalog; KeyError on a frame built from the
  empty list.
\<close>

definition names_with_id_in :: "catalog \<Rightarrow> int list \<Rightarrow> error + string list" where
  "names_with_id_in extras_lookup ex =
     (if extras_lookup = [] then Inl KeyError
      else Inr (map snd (filter (\<lambda>row. fst row \<in> set ex) extras_lookup)))"

text \<open>
  The list \<^verbatim>\<open>extras\<close> of one reference (lines 225 to 229). The extras catalog is read
  only when the key \<^verbatim>\<open>extra\<close> is present and its list is not empty.
\<close>

definition extras_of :: "reference \<Rightarrow> catalog \<Rightarrow> error + string list" where
  "extras_of r extras_lookup =
     (case ref_extra r of
        None \<Rightarrow> Inr []
      | Some ex \<Rightarrow>
          if ex = [] then Inr []
          else (case names_with_id_in extras_lookup ex of
                  Inl err \<Rightarrow> Inl err
                | Inr extras \<Rightarrow> Inr (map (\<lambda>extra. ''('' @ extra @ '')'') extras)))"

text \<open>
  The body of the loop for a truthy element (lines 224 to 230), in the order the
  statements run: line 224 raises KeyError when the catalog has no column \<^verbatim>\<open>id\<close> or the
  element has no key \<^verbatim>\<open>id\<close>; line 226 raises KeyError when extras are asked of an
  extras catalog without columns; \<^verbatim>\<open>name[0]\<close> in line 230 raises IndexError on the
  empty list.
\<close>

definition full_name :: "set_order \<Rightarrow> reference \<Rightarrow> catalog \<Rightarrow> catalog \<Rightarrow> error + string" where
  "full_name so r lookup extras_lookup =
     (case ref_id r of
        None \<Rightarrow> Inl KeyError
      | Some i \<Rightarrow>
          (case names_with_id lookup i of
             Inl err \<Rightarrow> Inl err
           | Inr matches \<Rightarrow>
               (let name = so matches
                in case extras_of r extras_lookup of
                     Inl err \<Rightarrow> Inl err
                   | Inr extras \<Rightarrow>
                       (case name of
                          [] \<Rightarrow> Inl IndexError
                        | n # _ \<Rightarrow> Inr (n @ concat extras)))))"

fun id_to_name_loop ::
  "set_order \<Rightarrow> catalog \<Rightarrow> catalog \<Rightarrow> slot list \<Rightarrow> string list \<Rightarrow> error + string list" where
  "id_to_name_loop so lookup extras_lookup [] full_names = Inr full_names"
| "id_to_name_loop so lookup extras_lookup (e # es) full_names =
     (if truthy e then
        (case full_name so (the e) lookup extras_lookup of
           Inl err \<Rightarrow> Inl err
         | Inr s \<Rightarrow> id_to_name_loop so lookup extras_lookup es (full_names @ [s]))
      else id_to_name_loop so lookup extras_lookup es full_names)"

definition id_to_name :: "set_order \<Rightarrow> slot list \<Rightarrow> catalog \<Rightarrow> catalog \<Rightarrow> error + string list" where
  "id_to_name so id_list lookup extras_lookup =
     id_to_name_loop so lookup extras_lookup id_list []"

text \<open>The dicts of the truthy elements of an id list, in order.\<close>

definition truthy_refs :: "slot list \<Rightarrow> reference list" where
  "truthy_refs id_list = map the (filter truthy id_list)"

text \<open>
  The reading of the specification, for comparison: an element "has a non-empty id" when
  it is an object whose \<^verbatim>\<open>id\<close> key is present and truthy (not zero).
\<close>

definition spec_id_nonempty :: "slot \<Rightarrow> bool" where
  "spec_id_nonempty e =
     (case e of None \<Rightarrow> False
      | Some r \<Rightarrow> (case ref_id r of None \<Rightarrow> False | Some i \<Rightarrow> i \<noteq> 0))"

text \<open>The extra ids a reference carries; none when the key is absent.\<close>

definition extra_ids :: "reference \<Rightarrow> int list" where
  "extra_ids r = (case ref_extra r of None \<Rightarrow> [] | Some ex \<Rightarrow> ex)"

text \<open>
  For the statements below, as plain lists: the names of the catalog rows with a given
  id, and the suffixes of a reference over an extras catalog. They are what lines 224
  and 226 to 227 compute when the frames have their columns.
\<close>

definition matching_names :: "catalog \<Rightarrow> int \<Rightarrow> string list" where
  "matching_names lookup i = map snd (filter (\<lambda>row. fst row = i) lookup)"

definition suffixes :: "reference \<Rightarrow> catalog \<Rightarrow> string list" where
  "suffixes r extras_lookup =
     map (\<lambda>extra. ''('' @ extra @ '')'')
       (map snd (filter (\<lambda>row. fst row \<in> set (extra_ids r)) extras_lookup))"

subsection \<open>Category codes\<close>

text \<open>
  The dict \<^verbatim>\<open>type_id_to_name\<close> of \<^verbatim>\<open>convert_type_ids\<close>, and the value the function
  stores in the column \<^verbatim>\<open>type\<close> of a row from the row's \<^verbatim>\<open>type_id\<close>. Subscripting a
  dict with a key it does not hold raises KeyError.
\<close>

definition type_id_to_name :: "int \<rightharpoonup> string" where
  "type_id_to_name =
     [1 \<mapsto> ''LI'', 2 \<mapsto> ''MI'', 3 \<mapsto> ''HI'', 4 \<mapsto> ''TAG'', 5 \<mapsto> ''REM'', 6 \<mapsto> ''SK'', 7 \<mapsto> ''WB'']"

definition convert_type_ids :: "int \<Rightarrow> error + string" where
  "convert_type_ids type_id =
     (case type_id_to_name type_id of None \<Rightarrow> Inl KeyError | Some label \<Rightarrow> Inr label)"

subsection \<open>Order counts\<close>

text \<open>
  An entry of an option's \<^verbatim>\<open>orders\<close> list. \<^verbatim>\<open>get_orders_of_type\<close> sums the
  \<^verbatim>\<open>total\<close> of the entries whose \<^verbatim>\<open>type\<close> equals the given string;
  \<^verbatim>\<open>add_order_columns\<close> computes the four columns of a row from its \<^verbatim>\<open>orders\<close>.
\<close>

record order_entry =
  order_type :: string
  order_total :: int

definition get_orders_of_type :: "order_entry list \<Rightarrow> string \<Rightarrow> int" where
  "get_orders_of_type orders_list t =
     sum_list (map order_total (filter (\<lambda>order. order_type order = t) orders_list))"

record order_columns =
  Regular_Orders :: int
  Irregular_Orders :: int
  Impetuous_Orders :: int
  Lieutenant_Orders :: int

definition add_order_columns :: "order_entry list \<Rightarrow> order_columns" where
  "add_order_columns orders =
     (let order_cols = map (\<lambda>t. get_orders_of_type orders t)
                         [''REGULAR'', ''IRREGULAR'', ''IMPETUOUS'', ''LIEUTENANT'']
      in \<lparr>Regular_Orders = order_cols ! 0, Irregular_Orders = order_cols ! 1,
          Impetuous_Orders = order_cols ! 2, Lieutenant_Orders = order_cols ! 3\<rparr>)"

subsection \<open>Units, profile groups, options and profiles\<close>

text \<open>
  The records of a faction document, with the fields the functions below read: the id
  lists, the order list, cost and category code. The remaining attribute fields are
  copied into columns unchanged.
\<close>

record option_rec =
  opt_points :: int
  opt_swc :: string
  opt_skills :: "slot list"
  opt_orders :: "order_entry list"
  opt_weapons :: "slot list"
  opt_equip :: "slot list"

record profile =
  prof_skills :: "slot list"
  prof_equip :: "slot list"
  prof_weapons :: "slot list"
  prof_type :: int

record profile_group =
  pg_options :: "option_rec list"
  pg_profiles :: "profile list"

record unit_rec =
  unit_name :: string
  profileGroups :: "profile_group list"

subsection \<open>Flattening (lines 312 to 331 of \<^verbatim>\<open>load_army_data_to_dataframes\<close>)\<close>

text \<open>
  A cell of an exploded column holds an element of the list, or NaN.
  \<^verbatim>\<open>DataFrame.explode\<close> gives one row for each element of the list in the column and
  keeps the order; for an empty list it gives one row whose cell is NaN (pandas: "empty
  list-likes will result in a np.nan for that row").

  \<^verbatim>\<open>add_column_from_dict_value\<close> evaluates \<^verbatim>\<open>[d.get(key) for d in source_df[column]]\<close>.
  NaN is a float and has no attribute \<^verbatim>\<open>get\<close>, so a NaN cell raises AttributeError. The
  record in the cell holds every key, so one application stands for all the calls on the
  same column, and the new columns are the fields of that record.
\<close>

datatype 'a cell = NaN | Val 'a

definition explode :: "('r \<Rightarrow> 'a list) \<Rightarrow> 'r list \<Rightarrow> ('r \<times> 'a cell) list" where
  "explode column df =
     concat (map (\<lambda>row. if column row = [] then [(row, NaN)]
                         else map (\<lambda>x. (row, Val x)) (column row)) df)"

fun add_column_from_dict_value :: "('r \<times> 'd cell) list \<Rightarrow> error + ('r \<times> 'd) list" where
  "add_column_from_dict_value [] = Inr []"
| "add_column_from_dict_value ((row, NaN) # df) = Inl AttributeError"
| "add_column_from_dict_value ((row, Val d) # df) =
     (case add_column_from_dict_value df of
        Inl err \<Rightarrow> Inl err
      | Inr rows \<Rightarrow> Inr ((row, d) # rows))"

text \<open>
  A row after line 331: the unit, and the group, option and profile whose fields fill
  its columns. The frame is exploded on \<^verbatim>\<open>profileGroups\<close>, then on
  \<^verbatim>\<open>profileGroupOptions\<close>, then on \<^verbatim>\<open>profileGroupProfiles\<close>, with the field reads
  in between. The frame of line 302 is built from the list of units: for the empty list
  it has no column \<^verbatim>\<open>profileGroups\<close> and the first explode (line 312) raises KeyError.
\<close>

record flat_row =
  row_unit :: unit_rec
  row_group :: profile_group
  row_option :: option_rec
  row_profile :: profile

definition mk_row :: "((unit_rec \<times> profile_group) \<times> option_rec) \<times> profile \<Rightarrow> flat_row" where
  "mk_row = (\<lambda>(((u, g), opt), p).
      \<lparr>row_unit = u, row_group = g, row_option = opt, row_profile = p\<rparr>)"

definition flatten_units :: "unit_rec list \<Rightarrow> error + flat_row list" where
  "flatten_units units =
     (if units = [] then Inl KeyError
      else
       (case add_column_from_dict_value (explode profileGroups units) of
          Inl err \<Rightarrow> Inl err
        | Inr df1 \<Rightarrow>
            (case add_column_from_dict_value (explode (\<lambda>(u, g). pg_options g) df1) of
               Inl err \<Rightarrow> Inl err
             | Inr df2 \<Rightarrow>
                 (case add_column_from_dict_value (explode (\<lambda>((u, g), opt). pg_profiles g) df2) of
                    Inl err \<Rightarrow> Inl err
                  | Inr df3 \<Rightarrow>
                      Inr (map mk_row df3)))))"

text \<open>
  The rows expected of one group (each option with each profile of that group), of one
  unit, and the condition that no unit lacks groups and no group lacks options or
  profiles. \<open>pairs\<close> lists each row with each element of its list.
\<close>

definition group_rows :: "unit_rec \<Rightarrow> profile_group \<Rightarrow> flat_row list" where
  "group_rows u g =
     concat (map (\<lambda>opt. map (\<lambda>p. \<lparr>row_unit = u, row_group = g, row_option = opt, row_profile = p\<rparr>)
                           (pg_profiles g)) (pg_options g))"

definition unit_rows :: "unit_rec \<Rightarrow> flat_row list" where
  "unit_rows u = concat (map (group_rows u) (profileGroups u))"

definition nowhere_empty :: "unit_rec list \<Rightarrow> bool" where
  "nowhere_empty units =
     (\<forall>u\<in>set units. profileGroups u \<noteq> [] \<and>
        (\<forall>g\<in>set (profileGroups u). pg_options g \<noteq> [] \<and> pg_profiles g \<noteq> []))"

definition pairs :: "('r \<Rightarrow> 'a list) \<Rightarrow> 'r list \<Rightarrow> ('r \<times> 'a) list" where
  "pairs column df = concat (map (\<lambda>row. map (\<lambda>x. (row, x)) (column row)) df)"

subsection \<open>Id columns to name columns\<close>

text \<open>
  \<^verbatim>\<open>convert_skill_ids\<close>, \<^verbatim>\<open>convert_weapon_ids\<close> and \<^verbatim>\<open>convert_equipment_ids\<close>: the
  value stored in the new column of one row, the names of the profile's list followed
  by the names of the option's list (the \<^verbatim>\<open>+\<close> of two columns of lists concatenates
  row by row). An exception in either resolution aborts the conversion.
\<close>

definition convert_skill_ids :: "set_order \<Rightarrow> flat_row \<Rightarrow> catalog \<Rightarrow> catalog \<Rightarrow> error + string list" where
  "convert_skill_ids so row skills_df extras_df =
     (case id_to_name so (prof_skills (row_profile row)) skills_df extras_df of
        Inl err \<Rightarrow> Inl err
      | Inr names \<Rightarrow>
          (case id_to_name so (opt_skills (row_option row)) skills_df extras_df of
             Inl err \<Rightarrow> Inl err
           | Inr option_names \<Rightarrow> Inr (names @ option_names)))"

definition convert_weapon_ids :: "set_order \<Rightarrow> flat_row \<Rightarrow> catalog \<Rightarrow> catalog \<Rightarrow> error + string list" where
  "convert_weapon_ids so row weapons_df extras_df =
     (case id_to_name so (prof_weapons (row_profile row)) weapons_df extras_df of
        Inl err \<Rightarrow> Inl err
      | Inr names \<Rightarrow>
          (case id_to_name so (opt_weapons (row_option row)) weapons_df extras_df of
             Inl err \<Rightarrow> Inl err
           | Inr option_names \<Rightarrow> Inr (names @ option_names)))"

definition convert_equipment_ids :: "set_order \<Rightarrow> flat_row \<Rightarrow> catalog \<Rightarrow> catalog \<Rightarrow> error + string list" where
  "convert_equipment_ids so row equipment_df extras_df =
     (case id_to_name so (prof_equip (row_profile row)) equipment_df extras_df of
        Inl err \<Rightarrow> Inl err
      | Inr names \<Rightarrow>
          (case id_to_name so (opt_equip (row_option row)) equipment_df extras_df of
             Inl err \<Rightarrow> Inl err
           | Inr option_names \<Rightarrow> Inr (names @ option_names)))"

subsection \<open>Sample data\<close>

definition example_profile :: profile where
  "example_profile =
     \<lparr>prof_skills = [Some \<lparr>ref_id = Some 5, ref_extra = None\<rparr>], prof_equip = [],
      prof_weapons = [Some \<lparr>ref_id = Some 9, ref_extra = Some [1]\<rparr>], prof_type = 2\<rparr>"

definition example_option :: option_rec where
  "example_option =
     \<lparr>opt_points = 10, opt_swc = ''0'', opt_skills = [Some \<lparr>ref_id = Some 6, ref_extra = None\<rparr>],
      opt_orders = [\<lparr>order_type = ''REGULAR'', order_total = 1\<rparr>],
      opt_weapons = [Some \<lparr>ref_id = Some 7, ref_extra = None\<rparr>], opt_equip = []\<rparr>"

definition example_unit :: unit_rec where
  "example_unit =
     \<lparr>unit_name = ''Fusilier'',
      profileGroups =
        [\<lparr>pg_options = [example_option, example_option], pg_profiles = [example_profile]\<rparr>,
         \<lparr>pg_options = [example_option], pg_profiles = [example_profile, example_profile]\<rparr>]\<rparr>"

definition example_unit_no_options :: unit_rec where
  "example_unit_no_options =
     \<lparr>unit_name = ''Pilot'',
      profileGroups =
        [\<lparr>pg_options = [example_option], pg_profiles = [example_profile]\<rparr>,
         \<lparr>pg_options = [], pg_profiles = [example_profile]\<rparr>]\<rparr>"

section \<open>Auxiliary facts\<close>

subsection \<open>Resolution\<close>

lemma truthy_Some: "truthy e \<Longrightarrow> \<exists>r. e = Some r"
  by (cases e) (simp_all add: truthy_def)

lemma length_truthy_refs: "length (truthy_refs ids) = length (filter truthy ids)"
  by (simp add: truthy_refs_def)

lemma truthy_refs_Cons:
  "truthy_refs (e # es) = (if truthy e then the e # truthy_refs es else truthy_refs es)"
  by (simp add: truthy_refs_def)

lemma truthy_refs_append: "truthy_refs (xs @ ys) = truthy_refs xs @ truthy_refs ys"
  by (simp add: truthy_refs_def)

lemma set_order_ok_Nil: "set_order_ok so \<Longrightarrow> so [] = []"
  by (metis set_order_ok_def set_empty)

lemma set_order_ok_nonempty: "set_order_ok so \<Longrightarrow> xs \<noteq> [] \<Longrightarrow> so xs \<noteq> []"
  by (metis set_order_ok_def set_empty)

lemma set_order_ok_remdups: "set_order_ok remdups"
  by (simp add: set_order_ok_def)

lemma set_order_ok_rev_remdups: "set_order_ok (\<lambda>xs. rev (remdups xs))"
  by (simp add: set_order_ok_def)

lemma matching_names_empty: "matching_names lookup i = [] \<longleftrightarrow> i \<notin> fst ` set lookup"
  by (induction lookup) (auto simp: matching_names_def)

lemma names_with_id_eq:
  "names_with_id lookup i = (if lookup = [] then Inl KeyError else Inr (matching_names lookup i))"
  by (simp add: names_with_id_def matching_names_def)

lemma extras_of_eq:
  "extras_of r extras_lookup =
     (if extra_ids r \<noteq> [] \<and> extras_lookup = [] then Inl KeyError
      else Inr (suffixes r extras_lookup))"
  by (simp add: extras_of_def extra_ids_def names_with_id_in_def suffixes_def
      split: option.splits)

lemma full_name_cases:
  "full_name so r lookup extras_lookup =
     (case ref_id r of
        None \<Rightarrow> Inl KeyError
      | Some i \<Rightarrow>
          if lookup = [] \<or> (extra_ids r \<noteq> [] \<and> extras_lookup = []) then Inl KeyError
          else (case so (matching_names lookup i) of
                  [] \<Rightarrow> Inl IndexError
                | n # _ \<Rightarrow> Inr (n @ concat (suffixes r extras_lookup))))"
  by (simp add: full_name_def names_with_id_eq extras_of_eq split: option.splits list.splits)

lemma full_name_Inr_iff:
  assumes "set_order_ok so"
  shows "(\<exists>s. full_name so r lookup extras_lookup = Inr s) \<longleftrightarrow>
         (\<exists>i. ref_id r = Some i \<and> i \<in> fst ` set lookup) \<and>
         (extras_lookup \<noteq> [] \<or> extra_ids r = [])"
proof (cases "ref_id r")
  case None
  then show ?thesis by (simp add: full_name_cases)
next
  case (Some i)
  show ?thesis
  proof (cases "i \<in> fst ` set lookup")
    case True
    then have ne: "lookup \<noteq> []" by auto
    from True have "matching_names lookup i \<noteq> []" by (simp add: matching_names_empty)
    then have "so (matching_names lookup i) \<noteq> []"
      using assms by (rule set_order_ok_nonempty[rotated])
    then show ?thesis using Some True ne
      by (auto simp: full_name_cases split: list.splits)
  next
    case False
    then have "matching_names lookup i = []" by (simp add: matching_names_empty)
    then have "so (matching_names lookup i) = []"
      using assms by (simp add: set_order_ok_Nil)
    then show ?thesis using Some False by (simp add: full_name_cases)
  qed
qed

lemma full_name_no_match:
  assumes "set_order_ok so" "ref_id r = Some i" "i \<notin> fst ` set lookup" "lookup \<noteq> []"
    and "extras_lookup \<noteq> [] \<or> extra_ids r = []"
  shows "full_name so r lookup extras_lookup = Inl IndexError"
proof -
  have "matching_names lookup i = []" using assms(3) by (simp add: matching_names_empty)
  then have "so (matching_names lookup i) = []"
    using assms(1) by (simp add: set_order_ok_Nil)
  then show ?thesis using assms(2,4,5) by (auto simp: full_name_cases)
qed

lemma full_name_Inl_IndexError:
  assumes "full_name so r lookup extras_lookup = Inl err" and "ref_id r \<noteq> None"
    and "lookup \<noteq> []" and "extras_lookup \<noteq> [] \<or> extra_ids r = []"
  shows "err = IndexError"
  using assms by (auto simp: full_name_cases split: option.splits list.splits if_splits)

lemma id_to_name_loop_Inr:
  "id_to_name_loop so lookup extras_lookup es acc = Inr names \<Longrightarrow>
   \<exists>new. names = acc @ new \<and>
         map Inr new = map (\<lambda>r. full_name so r lookup extras_lookup) (truthy_refs es)"
proof (induction es arbitrary: acc)
  case Nil
  then show ?case by (simp add: truthy_refs_def)
next
  case (Cons e es)
  show ?case
  proof (cases "truthy e")
    case False
    with Cons show ?thesis by (simp add: truthy_refs_Cons)
  next
    case True
    with Cons.prems obtain s where
      s: "full_name so (the e) lookup extras_lookup = Inr s" and
      rest: "id_to_name_loop so lookup extras_lookup es (acc @ [s]) = Inr names"
      by (auto split: sum.splits)
    from Cons.IH[OF rest] obtain new where
      "names = (acc @ [s]) @ new"
      "map Inr new = map (\<lambda>r. full_name so r lookup extras_lookup) (truthy_refs es)"
      by blast
    then have "names = acc @ (s # new) \<and>
      map Inr (s # new) = map (\<lambda>r. full_name so r lookup extras_lookup) (truthy_refs (e # es))"
      using True s by (simp add: truthy_refs_Cons)
    then show ?thesis by blast
  qed
qed

lemma id_to_name_loop_Inl:
  "id_to_name_loop so lookup extras_lookup es acc = Inl err \<Longrightarrow>
   \<exists>r\<in>set (truthy_refs es). full_name so r lookup extras_lookup = Inl err"
proof (induction es arbitrary: acc)
  case Nil
  then show ?case by simp
next
  case (Cons e es)
  show ?case
  proof (cases "truthy e")
    case False
    with Cons show ?thesis by (simp add: truthy_refs_Cons)
  next
    case True
    show ?thesis
    proof (cases "full_name so (the e) lookup extras_lookup")
      case (Inl err')
      with Cons.prems True have "err' = err" by (simp add:)
      with Inl True show ?thesis by (simp add: truthy_refs_Cons)
    next
      case (Inr s)
      with Cons.prems True have
        "id_to_name_loop so lookup extras_lookup es (acc @ [s]) = Inl err"
        by (simp add:)
      from Cons.IH[OF this] show ?thesis using True by (auto simp: truthy_refs_Cons)
    qed
  qed
qed

lemma id_to_name_loop_total:
  "\<forall>r\<in>set (truthy_refs es). \<exists>s. full_name so r lookup extras_lookup = Inr s \<Longrightarrow>
   \<exists>names. id_to_name_loop so lookup extras_lookup es acc = Inr names"
proof (cases "id_to_name_loop so lookup extras_lookup es acc")
  case (Inl err)
  assume a: "\<forall>r\<in>set (truthy_refs es). \<exists>s. full_name so r lookup extras_lookup = Inr s"
  from id_to_name_loop_Inl[OF Inl] a show ?thesis by force
next
  case (Inr names)
  then show ?thesis by blast
qed

lemma base_name_exists:
  assumes "set_order_ok so" and "i \<in> fst ` set lookup"
  shows "\<exists>base rest. so (matching_names lookup i) = base # rest \<and> (i, base) \<in> set lookup"
proof -
  have "matching_names lookup i \<noteq> []" using assms(2) by (simp add: matching_names_empty)
  then have "so (matching_names lookup i) \<noteq> []"
    using assms(1) by (simp add: set_order_ok_nonempty)
  then obtain base rest where br: "so (matching_names lookup i) = base # rest"
    by (cases "so (matching_names lookup i)") auto
  then have "base \<in> set (so (matching_names lookup i))" by simp
  then have "base \<in> set (matching_names lookup i)"
    using assms(1) by (simp add: set_order_ok_def)
  then have "(i, base) \<in> set lookup" by (auto simp: matching_names_def)
  with br show ?thesis by blast
qed

lemma suffixes_length:
  "length (suffixes r extras_lookup) =
     length (filter (\<lambda>row. fst row \<in> set (extra_ids r)) extras_lookup)"
  by (simp add: suffixes_def)

lemma suffixes_drop_unmatched:
  "suffixes (r\<lparr>ref_extra := Some (filter (\<lambda>x. x \<in> fst ` set extras_lookup) (extra_ids r))\<rparr>)
      extras_lookup = suffixes r extras_lookup"
proof -
  have f: "filter (\<lambda>row. fst row \<in> set ex \<and> fst row \<in> fst ` set E) E =
           filter (\<lambda>row. fst row \<in> set ex) E" for E :: catalog and ex
    by (rule filter_cong) auto
  have e: "extra_ids (r\<lparr>ref_extra := Some xs\<rparr>) = xs" for xs
    by (simp add: extra_ids_def)
  show ?thesis
    unfolding suffixes_def e by (simp add: f)
qed

lemma extras_of_drop_unmatched:
  "extras_lookup \<noteq> [] \<Longrightarrow>
   extras_of (r\<lparr>ref_extra := Some (filter (\<lambda>x. x \<in> fst ` set extras_lookup) (extra_ids r))\<rparr>)
      extras_lookup = extras_of r extras_lookup"
  by (simp add: extras_of_eq suffixes_drop_unmatched)

lemma id_to_name_loop_acc:
  "id_to_name_loop so lookup extras_lookup es acc =
     (case id_to_name_loop so lookup extras_lookup es [] of
        Inl err \<Rightarrow> Inl err
      | Inr names \<Rightarrow> Inr (acc @ names))"
proof (induction es arbitrary: acc)
  case Nil
  then show ?case by simp
next
  case (Cons e es)
  show ?case
  proof (cases "truthy e")
    case False
    then show ?thesis using Cons.IH[of acc] by simp
  next
    case True
    show ?thesis
    proof (cases "full_name so (the e) lookup extras_lookup")
      case (Inl err)
      with True show ?thesis by simp
    next
      case (Inr s)
      show ?thesis
        using True Inr Cons.IH[of "acc @ [s]"] Cons.IH[of "[s]"]
        by (simp split: sum.splits)
    qed
  qed
qed

lemma id_to_name_loop_append:
  "id_to_name_loop so lookup extras_lookup (xs @ ys) acc =
     (case id_to_name_loop so lookup extras_lookup xs acc of
        Inl err \<Rightarrow> Inl err
      | Inr names \<Rightarrow> id_to_name_loop so lookup extras_lookup ys names)"
  by (induction xs arbitrary: acc) (simp_all split: sum.splits)

lemma id_to_name_append:
  "id_to_name so (xs @ ys) lookup extras_lookup =
     (case id_to_name so xs lookup extras_lookup of
        Inl err \<Rightarrow> Inl err
      | Inr names \<Rightarrow>
          (case id_to_name so ys lookup extras_lookup of
             Inl err \<Rightarrow> Inl err
           | Inr option_names \<Rightarrow> Inr (names @ option_names)))"
proof (cases "id_to_name_loop so lookup extras_lookup xs []")
  case (Inl err)
  then show ?thesis by (simp add: id_to_name_def id_to_name_loop_append)
next
  case (Inr names)
  then show ?thesis
    using id_to_name_loop_acc[of so lookup extras_lookup ys names]
    by (simp add: id_to_name_def id_to_name_loop_append)
qed

subsection \<open>Order counts\<close>

lemma get_orders_of_type_if:
  "get_orders_of_type orders t = (\<Sum>order\<leftarrow>orders. if order_type order = t then order_total order else 0)"
  by (induction orders) (simp_all add: get_orders_of_type_def)

lemma get_orders_of_type_filter:
  "P t \<Longrightarrow> get_orders_of_type (filter (\<lambda>order. P (order_type order)) orders) t = get_orders_of_type orders t"
  by (induction orders) (simp_all add: get_orders_of_type_def)

subsection \<open>Explode and field reads\<close>

lemma add_column_Val:
  "add_column_from_dict_value (map (\<lambda>(row, d). (row, Val d)) rows) = Inr rows"
  by (induction rows) auto

lemma add_column_NaN:
  "(row, NaN) \<in> set df \<Longrightarrow> add_column_from_dict_value df = Inl AttributeError"
proof (induction df rule: add_column_from_dict_value.induct)
  case 1
  then show ?case by simp
next
  case (2 row df)
  then show ?case by simp
next
  case (3 row d df)
  then show ?case by auto
qed

lemma explode_full:
  "\<forall>row\<in>set df. column row \<noteq> [] \<Longrightarrow>
   explode column df = map (\<lambda>(row, d). (row, Val d)) (pairs column df)"
  by (induction df) (simp_all add: explode_def pairs_def)

lemma explode_empty:
  "row \<in> set df \<Longrightarrow> column row = [] \<Longrightarrow> (row, NaN) \<in> set (explode column df)"
  by (auto simp: explode_def)

lemma add_column_explode_full:
  "\<forall>row\<in>set df. column row \<noteq> [] \<Longrightarrow>
   add_column_from_dict_value (explode column df) = Inr (pairs column df)"
  by (simp add: explode_full add_column_Val)

lemma add_column_explode_empty:
  "row \<in> set df \<Longrightarrow> column row = [] \<Longrightarrow>
   add_column_from_dict_value (explode column df) = Inl AttributeError"
  using add_column_NaN explode_empty by fast

lemma set_pairs: "set (pairs column df) = {(row, x). row \<in> set df \<and> x \<in> set (column row)}"
  by (auto simp: pairs_def)

lemma pairs_Nil: "pairs column [] = []"
  by (simp add: pairs_def)

lemma pairs_append: "pairs column (xs @ ys) = pairs column xs @ pairs column ys"
  by (simp add: pairs_def)

lemma pairs_Cons: "pairs column (x # xs) = map (\<lambda>y. (x, y)) (column x) @ pairs column xs"
  by (simp add: pairs_def)

lemma rows_of_options:
  "map mk_row (pairs (\<lambda>((u, g), opt). pg_profiles g) (map (\<lambda>opt. ((u, g), opt)) opts)) =
   concat (map (\<lambda>opt. map (\<lambda>p. \<lparr>row_unit = u, row_group = g, row_option = opt, row_profile = p\<rparr>)
                           (pg_profiles g)) opts)"
  by (induction opts) (simp_all add: pairs_Nil pairs_Cons mk_row_def)

lemma rows_of_groups:
  "map mk_row (pairs (\<lambda>((u, g), opt). pg_profiles g)
                 (pairs (\<lambda>(u, g). pg_options g) (map (\<lambda>g. (u, g)) gs))) =
   concat (map (group_rows u) gs)"
  by (induction gs)
     (simp_all add: pairs_Nil pairs_Cons pairs_append rows_of_options group_rows_def)

lemma rows_of_units:
  "map mk_row (pairs (\<lambda>((u, g), opt). pg_profiles g)
                 (pairs (\<lambda>(u, g). pg_options g) (pairs profileGroups units))) =
   concat (map unit_rows units)"
  by (induction units)
     (simp_all add: pairs_Nil pairs_Cons pairs_append rows_of_groups unit_rows_def)

lemma length_group_rows:
  "length (group_rows u g) = length (pg_options g) * length (pg_profiles g)"
  by (simp add: group_rows_def length_concat comp_def sum_list_triv)

lemma length_unit_rows:
  "length (unit_rows u) = (\<Sum>g\<leftarrow>profileGroups u. length (pg_options g) * length (pg_profiles g))"
  by (simp add: unit_rows_def length_concat comp_def length_group_rows)

lemma length_all_rows:
  "length (concat (map unit_rows units)) =
   (\<Sum>u\<leftarrow>units. \<Sum>g\<leftarrow>profileGroups u. length (pg_options g) * length (pg_profiles g))"
  by (simp add: length_concat comp_def length_unit_rows)

lemma flatten_units_ok:
  assumes "units \<noteq> []" and "nowhere_empty units"
  shows "flatten_units units = Inr (concat (map unit_rows units))"
proof -
  let ?df1 = "pairs profileGroups units"
  let ?df2 = "pairs (\<lambda>(u, g). pg_options g) ?df1"
  have 1: "add_column_from_dict_value (explode profileGroups units) = Inr ?df1"
    using assms(2) by (intro add_column_explode_full) (simp add: nowhere_empty_def)
  have "\<forall>row\<in>set ?df1. (\<lambda>(u, g). pg_options g) row \<noteq> []"
    using assms(2) by (auto simp: set_pairs nowhere_empty_def)
  then have 2: "add_column_from_dict_value (explode (\<lambda>(u, g). pg_options g) ?df1) = Inr ?df2"
    by (rule add_column_explode_full)
  have "\<forall>row\<in>set ?df2. (\<lambda>((u, g), opt). pg_profiles g) row \<noteq> []"
    using assms(2) by (auto simp: set_pairs nowhere_empty_def)
  then have 3: "add_column_from_dict_value (explode (\<lambda>((u, g), opt). pg_profiles g) ?df2) =
                Inr (pairs (\<lambda>((u, g), opt). pg_profiles g) ?df2)"
    by (rule add_column_explode_full)
  show ?thesis
    using assms(1) by (simp add: flatten_units_def 1 2 3 rows_of_units)
qed

lemma flatten_units_fails:
  assumes "\<not> nowhere_empty units"
  shows "flatten_units units = Inl AttributeError"
proof -
  have uns: "units \<noteq> []"
    using assms by (auto simp: nowhere_empty_def)
  show ?thesis
  proof (cases "\<exists>u\<in>set units. profileGroups u = []")
    case True
    then obtain u where "u \<in> set units" "profileGroups u = []" by blast
    then have "add_column_from_dict_value (explode profileGroups units) = Inl AttributeError"
      by (rule add_column_explode_empty)
    then show ?thesis using uns by (simp add: flatten_units_def)
  next
    case noUnit: False
    let ?df1 = "pairs profileGroups units"
    let ?c2 = "\<lambda>(u :: unit_rec, g). pg_options g"
    let ?df2 = "pairs ?c2 ?df1"
    let ?c3 = "\<lambda>((u :: unit_rec, g), opt :: option_rec). pg_profiles g"
    have 1: "add_column_from_dict_value (explode profileGroups units) = Inr ?df1"
      using noUnit by (intro add_column_explode_full) simp
    show ?thesis
    proof (cases "\<exists>row\<in>set ?df1. ?c2 row = []")
      case True
      then obtain row where "row \<in> set ?df1" "?c2 row = []" by blast
      then have "add_column_from_dict_value (explode ?c2 ?df1) = Inl AttributeError"
        by (rule add_column_explode_empty)
      then show ?thesis using uns by (simp add: flatten_units_def 1)
    next
      case noOpt: False
      then have "\<forall>row\<in>set ?df1. ?c2 row \<noteq> []" by blast
      then have 2: "add_column_from_dict_value (explode ?c2 ?df1) = Inr ?df2"
        by (rule add_column_explode_full)
      from assms have "\<exists>u\<in>set units. profileGroups u = [] \<or>
          (\<exists>g\<in>set (profileGroups u). pg_options g = [] \<or> pg_profiles g = [])"
        by (simp add: nowhere_empty_def)
      with noUnit obtain u g where
        ug: "u \<in> set units" "g \<in> set (profileGroups u)" "pg_options g = [] \<or> pg_profiles g = []"
        by blast
      then have in1: "(u, g) \<in> set ?df1" by (simp add: set_pairs)
      with noOpt have "?c2 (u, g) \<noteq> []" by blast
      then have ne: "pg_options g \<noteq> []" by simp
      then obtain opt where "opt \<in> set (pg_options g)" by (cases "pg_options g") auto
      with in1 have in2: "((u, g), opt) \<in> set ?df2" by (simp add: set_pairs)
      from ug(3) ne have "?c3 ((u, g), opt) = []" by simp
      with in2 have "add_column_from_dict_value (explode ?c3 ?df2) = Inl AttributeError"
        by (rule add_column_explode_empty)
      then show ?thesis using uns by (simp add: flatten_units_def 1 2)
    qed
  qed
qed

lemma flatten_units_Inr:
  assumes "flatten_units units = Inr rows"
  shows "nowhere_empty units \<and> rows = concat (map unit_rows units)"
proof (cases "nowhere_empty units")
  case True
  have ne: "units \<noteq> []"
    using assms by (auto simp: flatten_units_def)
  from assms flatten_units_ok[OF ne True] True show ?thesis by simp
next
  case False
  with assms flatten_units_fails[OF False] show ?thesis by simp
qed

lemma unit_rows_member:
  "row \<in> set (unit_rows u) \<Longrightarrow>
     row_unit row = u \<and> row_group row \<in> set (profileGroups u) \<and>
     row_option row \<in> set (pg_options (row_group row)) \<and>
     row_profile row \<in> set (pg_profiles (row_group row))"
  by (auto simp: unit_rows_def group_rows_def)

lemma flatten_example_unit:
  "flatten_units [example_unit] = Inr (unit_rows example_unit)"
proof -
  have "nowhere_empty [example_unit]"
    by (simp add: nowhere_empty_def example_unit_def)
  from flatten_units_ok[OF _ this] show ?thesis by simp
qed

section \<open>The claims\<close>

subsection \<open>C1: rows of the flattened table\<close>

text \<open>
  Claim C1, as the code has it: for a non-empty unit list in which every unit has at
  least one profile group and every group has at least one option and one profile,
  flattening returns exactly the rows (unit, group, option, profile) with the option and
  the profile taken from the same group, in order, so their number is the sum over the
  groups of (number of options) times (number of profiles). When a unit has no group,
  or a group has no option or no profile, the explode leaves a NaN row and the next
  field read raises AttributeError: the load fails, it does not drop the group. On the
  empty unit list the frame has no column to explode and the load raises KeyError.
\<close>

theorem flatten_units_row_count:
  "(units \<noteq> [] \<and> nowhere_empty units \<longrightarrow>
      flatten_units units = Inr (concat (map unit_rows units)) \<and>
      length (concat (map unit_rows units)) =
        (\<Sum>u\<leftarrow>units. \<Sum>g\<leftarrow>profileGroups u. length (pg_options g) * length (pg_profiles g))) \<and>
   (\<not> nowhere_empty units \<longrightarrow> flatten_units units = Inl AttributeError) \<and>
   flatten_units [] = Inl KeyError"
proof -
  have "flatten_units [] = Inl KeyError"
    by (simp add: flatten_units_def)
  then show ?thesis
    by (simp add: flatten_units_ok flatten_units_fails length_all_rows)
qed

theorem flatten_units_row_count_witness:
  "[example_unit] \<noteq> [] \<and> nowhere_empty [example_unit] \<and>
   (\<exists>rows. flatten_units [example_unit] = Inr rows \<and> length rows = 4) \<and>
   \<not> nowhere_empty [example_unit_no_options] \<and>
   flatten_units [example_unit_no_options] = Inl AttributeError"
  using flatten_units_row_count[of "[example_unit]"]
    flatten_units_row_count[of "[example_unit_no_options]"]
  by (simp add: nowhere_empty_def example_unit_def example_unit_no_options_def)

text \<open>
  A unit whose second group has no option: the claim expects the single row of the first
  group, the code raises.
\<close>

theorem flatten_units_no_options_counterexample:
  "flatten_units [example_unit_no_options] = Inl AttributeError \<and>
   (\<Sum>g\<leftarrow>profileGroups example_unit_no_options. length (pg_options g) * length (pg_profiles g)) = 1"
  by (simp add: flatten_units_def explode_def example_unit_no_options_def)

subsection \<open>C2: name columns are profile names followed by option names\<close>

text \<open>
  Claim C2: every row of the flattened table belongs to one unit, one group of that
  unit, and an option and a profile of that group; whenever the profile's list and the
  option's list resolve, each of the columns skills, weapons and equipment is the
  resolution of the profile's list followed by the resolution of the option's list. It
  is also the resolution of the two id lists concatenated in that order.
\<close>

theorem convert_ids_profile_then_option:
  assumes "flatten_units units = Inr rows" and "row \<in> set rows"
  shows "row_unit row \<in> set units \<and> row_group row \<in> set (profileGroups (row_unit row)) \<and>
         row_option row \<in> set (pg_options (row_group row)) \<and>
         row_profile row \<in> set (pg_profiles (row_group row)) \<and>
         (\<forall>a b. id_to_name so (prof_skills (row_profile row)) skills_df extras_df = Inr a \<and>
                id_to_name so (opt_skills (row_option row)) skills_df extras_df = Inr b \<longrightarrow>
                convert_skill_ids so row skills_df extras_df = Inr (a @ b)) \<and>
         (\<forall>a b. id_to_name so (prof_weapons (row_profile row)) weapons_df extras_df = Inr a \<and>
                id_to_name so (opt_weapons (row_option row)) weapons_df extras_df = Inr b \<longrightarrow>
                convert_weapon_ids so row weapons_df extras_df = Inr (a @ b)) \<and>
         (\<forall>a b. id_to_name so (prof_equip (row_profile row)) equipment_df extras_df = Inr a \<and>
                id_to_name so (opt_equip (row_option row)) equipment_df extras_df = Inr b \<longrightarrow>
                convert_equipment_ids so row equipment_df extras_df = Inr (a @ b)) \<and>
         convert_skill_ids so row skills_df extras_df =
           id_to_name so (prof_skills (row_profile row) @ opt_skills (row_option row)) skills_df extras_df \<and>
         convert_weapon_ids so row weapons_df extras_df =
           id_to_name so (prof_weapons (row_profile row) @ opt_weapons (row_option row)) weapons_df extras_df \<and>
         convert_equipment_ids so row equipment_df extras_df =
           id_to_name so (prof_equip (row_profile row) @ opt_equip (row_option row)) equipment_df extras_df"
proof -
  from flatten_units_Inr[OF assms(1)] assms(2) obtain u where
    u: "u \<in> set units" "row \<in> set (unit_rows u)" by auto
  from unit_rows_member[OF u(2)] u(1) have
    own: "row_unit row \<in> set units \<and> row_group row \<in> set (profileGroups (row_unit row)) \<and>
         row_option row \<in> set (pg_options (row_group row)) \<and>
         row_profile row \<in> set (pg_profiles (row_group row))"
    by simp
  have s: "\<forall>a b. id_to_name so (prof_skills (row_profile row)) skills_df extras_df = Inr a \<and>
                id_to_name so (opt_skills (row_option row)) skills_df extras_df = Inr b \<longrightarrow>
                convert_skill_ids so row skills_df extras_df = Inr (a @ b)"
    by (simp add: convert_skill_ids_def)
  have w: "\<forall>a b. id_to_name so (prof_weapons (row_profile row)) weapons_df extras_df = Inr a \<and>
                id_to_name so (opt_weapons (row_option row)) weapons_df extras_df = Inr b \<longrightarrow>
                convert_weapon_ids so row weapons_df extras_df = Inr (a @ b)"
    by (simp add: convert_weapon_ids_def)
  have e: "\<forall>a b. id_to_name so (prof_equip (row_profile row)) equipment_df extras_df = Inr a \<and>
                id_to_name so (opt_equip (row_option row)) equipment_df extras_df = Inr b \<longrightarrow>
                convert_equipment_ids so row equipment_df extras_df = Inr (a @ b)"
    by (simp add: convert_equipment_ids_def)
  have s2: "convert_skill_ids so row skills_df extras_df =
           id_to_name so (prof_skills (row_profile row) @ opt_skills (row_option row)) skills_df extras_df"
    by (simp add: convert_skill_ids_def id_to_name_append)
  have w2: "convert_weapon_ids so row weapons_df extras_df =
           id_to_name so (prof_weapons (row_profile row) @ opt_weapons (row_option row)) weapons_df extras_df"
    by (simp add: convert_weapon_ids_def id_to_name_append)
  have e2: "convert_equipment_ids so row equipment_df extras_df =
           id_to_name so (prof_equip (row_profile row) @ opt_equip (row_option row)) equipment_df extras_df"
    by (simp add: convert_equipment_ids_def id_to_name_append)
  from own s w e s2 w2 e2 show ?thesis by blast
qed

theorem convert_ids_profile_then_option_witness:
  "flatten_units [example_unit] = Inr (unit_rows example_unit) \<and>
   \<lparr>row_unit = example_unit,
     row_group = \<lparr>pg_options = [example_option, example_option], pg_profiles = [example_profile]\<rparr>,
     row_option = example_option, row_profile = example_profile\<rparr> \<in> set (unit_rows example_unit) \<and>
   convert_skill_ids remdups
     \<lparr>row_unit = example_unit,
       row_group = \<lparr>pg_options = [example_option, example_option], pg_profiles = [example_profile]\<rparr>,
       row_option = example_option, row_profile = example_profile\<rparr>
     [(5, ''Camouflage''), (6, ''Mimetism'')] [(1, ''AP'')] = Inr [''Camouflage'', ''Mimetism''] \<and>
   convert_weapon_ids remdups
     \<lparr>row_unit = example_unit,
       row_group = \<lparr>pg_options = [example_option, example_option], pg_profiles = [example_profile]\<rparr>,
       row_option = example_option, row_profile = example_profile\<rparr>
     [(9, ''Rifle''), (7, ''Pistol'')] [(1, ''AP'')] = Inr [''Rifle(AP)'', ''Pistol''] \<and>
   convert_equipment_ids remdups
     \<lparr>row_unit = example_unit,
       row_group = \<lparr>pg_options = [example_option, example_option], pg_profiles = [example_profile]\<rparr>,
       row_option = example_option, row_profile = example_profile\<rparr>
     [(3, ''Medikit'')] [(1, ''AP'')] = Inr []"
proof -
  let ?row = "\<lparr>row_unit = example_unit,
     row_group = \<lparr>pg_options = [example_option, example_option], pg_profiles = [example_profile]\<rparr>,
     row_option = example_option, row_profile = example_profile\<rparr>"
  have m: "?row \<in> set (unit_rows example_unit)"
    by (simp add: unit_rows_def group_rows_def example_unit_def)
  have ps: "id_to_name remdups (prof_skills (row_profile ?row))
              [(5, ''Camouflage''), (6, ''Mimetism'')] [(1, ''AP'')] = Inr [''Camouflage'']"
    by (simp add: example_profile_def id_to_name_def truthy_def full_name_def names_with_id_def
        extras_of_def)
  have os: "id_to_name remdups (opt_skills (row_option ?row))
              [(5, ''Camouflage''), (6, ''Mimetism'')] [(1, ''AP'')] = Inr [''Mimetism'']"
    by (simp add: example_option_def id_to_name_def truthy_def full_name_def names_with_id_def
        extras_of_def)
  have pw: "id_to_name remdups (prof_weapons (row_profile ?row))
              [(9, ''Rifle''), (7, ''Pistol'')] [(1, ''AP'')] = Inr [''Rifle(AP)'']"
    by (simp add: example_profile_def id_to_name_def truthy_def full_name_def names_with_id_def
        extras_of_def names_with_id_in_def)
  have ow: "id_to_name remdups (opt_weapons (row_option ?row))
              [(9, ''Rifle''), (7, ''Pistol'')] [(1, ''AP'')] = Inr [''Pistol'']"
    by (simp add: example_option_def id_to_name_def truthy_def full_name_def names_with_id_def
        extras_of_def)
  have pe: "id_to_name remdups (prof_equip (row_profile ?row)) [(3, ''Medikit'')] [(1, ''AP'')] = Inr []"
    by (simp add: example_profile_def id_to_name_def)
  have oe: "id_to_name remdups (opt_equip (row_option ?row)) [(3, ''Medikit'')] [(1, ''AP'')] = Inr []"
    by (simp add: example_option_def id_to_name_def)
  from convert_ids_profile_then_option[OF flatten_example_unit m,
      of remdups "[(5, ''Camouflage''), (6, ''Mimetism'')]" "[(1, ''AP'')]"
         "[(9, ''Rifle''), (7, ''Pistol'')]" "[(3, ''Medikit'')]"]
  have "convert_skill_ids remdups ?row [(5, ''Camouflage''), (6, ''Mimetism'')] [(1, ''AP'')]
          = Inr ([''Camouflage''] @ [''Mimetism''])"
    and "convert_weapon_ids remdups ?row [(9, ''Rifle''), (7, ''Pistol'')] [(1, ''AP'')]
          = Inr ([''Rifle(AP)''] @ [''Pistol''])"
    and "convert_equipment_ids remdups ?row [(3, ''Medikit'')] [(1, ''AP'')] = Inr ([] @ [])"
    using ps os pw ow pe oe by blast+
  with flatten_example_unit m show ?thesis by simp
qed

subsection \<open>C3: resolution keeps the order and skips the falsy elements\<close>

text \<open>
  Claim C3, as the code has it: when every truthy element of the id list carries an id
  that occurs in the catalog, and the extras catalog is not empty or no truthy element
  carries extra ids, \<open>id_to_name\<close> returns one composed name for each truthy element, in
  the order of the input, and nothing for the falsy elements (\<^verbatim>\<open>null\<close> and the empty
  object). The test is on the element, not on the value of its id.
\<close>

theorem id_to_name_order_count:
  assumes "set_order_ok so"
    and "\<forall>r\<in>set (truthy_refs id_list). \<exists>i. ref_id r = Some i \<and> i \<in> fst ` set lookup"
    and "extras_lookup \<noteq> [] \<or> (\<forall>r\<in>set (truthy_refs id_list). extra_ids r = [])"
  shows "\<exists>names. id_to_name so id_list lookup extras_lookup = Inr names \<and>
           map Inr names = map (\<lambda>r. full_name so r lookup extras_lookup) (truthy_refs id_list) \<and>
           length names = length (filter truthy id_list)"
proof -
  have "\<forall>r\<in>set (truthy_refs id_list). \<exists>s. full_name so r lookup extras_lookup = Inr s"
    using assms by (auto simp: full_name_Inr_iff)
  then obtain names where
    n: "id_to_name_loop so lookup extras_lookup id_list [] = Inr names"
    using id_to_name_loop_total by blast
  from id_to_name_loop_Inr[OF n] have
    m: "map Inr names = map (\<lambda>r. full_name so r lookup extras_lookup) (truthy_refs id_list)"
    by simp
  have "length (map (Inr :: string \<Rightarrow> error + string) names) = length (truthy_refs id_list)"
    by (simp add: m)
  then have "length names = length (filter truthy id_list)"
    by (simp add: length_truthy_refs)
  with n m show ?thesis by (simp add: id_to_name_def)
qed

theorem id_to_name_order_count_witness:
  "id_to_name remdups
     [Some \<lparr>ref_id = Some 9, ref_extra = Some [1]\<rparr>, None,
      Some \<lparr>ref_id = None, ref_extra = None\<rparr>, Some \<lparr>ref_id = Some 5, ref_extra = None\<rparr>]
     [(5, ''Camouflage''), (9, ''Rifle'')] [(1, ''AP'')]
   = Inr [''Rifle(AP)'', ''Camouflage'']"
  using id_to_name_order_count[OF set_order_ok_remdups,
     of "[Some \<lparr>ref_id = Some 9, ref_extra = Some [1]\<rparr>, None,
      Some \<lparr>ref_id = None, ref_extra = None\<rparr>, Some \<lparr>ref_id = Some 5, ref_extra = None\<rparr>]"
     "[(5, ''Camouflage''), (9, ''Rifle'')]" "[(1, ''AP'')]"]
  by (simp add: id_to_name_def truthy_def full_name_def names_with_id_def extras_of_def
      names_with_id_in_def truthy_refs_def)

text \<open>
  An element whose id is 0 is a truthy object: it is looked up and its name is emitted,
  although no element of the list has a non-empty id in the specification's sense.
\<close>

theorem id_to_name_zero_id_counterexample:
  "id_to_name remdups [Some \<lparr>ref_id = Some 0, ref_extra = None\<rparr>] [(0, ''Rifle'')] []
     = Inr [''Rifle''] \<and>
   filter spec_id_nonempty [Some \<lparr>ref_id = Some 0, ref_extra = None\<rparr>] = []"
  by (simp add: id_to_name_def truthy_def full_name_def names_with_id_def extras_of_def
      spec_id_nonempty_def)

subsection \<open>C4: an id without a catalog entry\<close>

text \<open>
  Claim C4, as the code has it: when a truthy element carries an id that occurs in no
  row of a non-empty catalog (every truthy element has an id key, and the extras catalog
  is not empty or no truthy element carries extra ids), resolution fails with
  IndexError, raised by \<^verbatim>\<open>name[0]\<close> on the empty list of matches. The code defines no
  error of its own.
\<close>

theorem id_to_name_unmatched_id:
  assumes "set_order_ok so"
    and "r \<in> set (truthy_refs id_list)"
    and "ref_id r = Some i"
    and "i \<notin> fst ` set lookup"
    and "lookup \<noteq> []"
    and "\<forall>r'\<in>set (truthy_refs id_list). ref_id r' \<noteq> None"
    and "extras_lookup \<noteq> [] \<or> (\<forall>r'\<in>set (truthy_refs id_list). extra_ids r' = [])"
  shows "id_to_name so id_list lookup extras_lookup = Inl IndexError"
proof (cases "id_to_name_loop so lookup extras_lookup id_list []")
  case (Inl err)
  from id_to_name_loop_Inl[OF Inl] obtain r' where
    r': "r' \<in> set (truthy_refs id_list)" "full_name so r' lookup extras_lookup = Inl err"
    by blast
  from r'(1) assms(6) have id': "ref_id r' \<noteq> None" by blast
  from r'(1) assms(7) have ex': "extras_lookup \<noteq> [] \<or> extra_ids r' = []" by blast
  have "err = IndexError"
    using r'(2) id' assms(5) ex' by (rule full_name_Inl_IndexError)
  with Inl show ?thesis by (simp add: id_to_name_def)
next
  case (Inr names)
  from id_to_name_loop_Inr[OF Inr] have
    "map Inr names = map (\<lambda>r. full_name so r lookup extras_lookup) (truthy_refs id_list)"
    by simp
  then have "\<forall>x\<in>set (map (\<lambda>r. full_name so r lookup extras_lookup) (truthy_refs id_list)).
                \<exists>s. x = Inr s"
    by (metis (no_types, lifting) imageE list.set_map)
  then have "\<exists>s. full_name so r lookup extras_lookup = Inr s"
    using assms(2) by auto
  moreover from assms(2,7) have "extras_lookup \<noteq> [] \<or> extra_ids r = []" by blast
  then have "full_name so r lookup extras_lookup = Inl IndexError"
    using assms(1,3,4,5) by (intro full_name_no_match)
  ultimately show ?thesis by simp
qed

theorem id_to_name_unmatched_id_witness:
  "id_to_name remdups
     [Some \<lparr>ref_id = Some 5, ref_extra = None\<rparr>, None, Some \<lparr>ref_id = Some 8, ref_extra = Some [1]\<rparr>]
     [(5, ''Camouflage''), (9, ''Rifle'')] [(1, ''AP'')] = Inl IndexError"
  using id_to_name_unmatched_id[OF set_order_ok_remdups,
     of "\<lparr>ref_id = Some 8, ref_extra = Some [1]\<rparr>"
        "[Some \<lparr>ref_id = Some 5, ref_extra = None\<rparr>, None, Some \<lparr>ref_id = Some 8, ref_extra = Some [1]\<rparr>]"
        8 "[(5, ''Camouflage''), (9, ''Rifle'')]" "[(1, ''AP'')]"]
  by (simp add: truthy_refs_def truthy_def)

text \<open>The failure is the out-of-range read itself.\<close>

theorem id_to_name_index_error_counterexample:
  "id_to_name remdups [Some \<lparr>ref_id = Some 5, ref_extra = None\<rparr>] [(9, ''Rifle'')] []
     = Inl IndexError"
  by (simp add: id_to_name_def truthy_def full_name_def names_with_id_def extras_of_def)

subsection \<open>C5: which of several names is taken\<close>

text \<open>
  Claim C5, as the code has it: when all the catalog rows with the reference's id carry
  the same name (and the extras catalog is not empty or the reference carries no extra
  ids), resolution yields that name with its suffixes whatever order the set is iterated
  in, so every run gives the same string. With two different names for one id the result
  is the first element of a set, which the iteration order decides.
\<close>

theorem full_name_same_name_deterministic:
  assumes "set_order_ok so1" and "set_order_ok so2"
    and "ref_id r = Some i"
    and "(i, n) \<in> set lookup"
    and "\<forall>row\<in>set lookup. fst row = i \<longrightarrow> snd row = n"
    and "extras_lookup \<noteq> [] \<or> extra_ids r = []"
  shows "\<exists>sfx. extras_of r extras_lookup = Inr sfx \<and>
           full_name so1 r lookup extras_lookup = Inr (n @ concat sfx) \<and>
           full_name so2 r lookup extras_lookup = full_name so1 r lookup extras_lookup"
proof -
  have ne: "lookup \<noteq> []" using assms(4) by auto
  have s: "set (matching_names lookup i) = {n}"
    using assms(4,5) by (force simp: matching_names_def)
  have one: "so (matching_names lookup i) = [n]" if "set_order_ok so" for so
  proof -
    from that have "set (so (matching_names lookup i)) = {n}" "distinct (so (matching_names lookup i))"
      using s by (simp_all add: set_order_ok_def)
    then show ?thesis
      by (metis distinct.simps(2) empty_iff insert_iff list.exhaust list.set_intros(1) list.set_intros(2) set_empty2 singletonD)
  qed
  have e: "extras_of r extras_lookup = Inr (suffixes r extras_lookup)"
    using assms(6) by (auto simp: extras_of_eq)
  have "full_name so1 r lookup extras_lookup = Inr (n @ concat (suffixes r extras_lookup))"
    and "full_name so2 r lookup extras_lookup = Inr (n @ concat (suffixes r extras_lookup))"
    using one[OF assms(1)] one[OF assms(2)] assms(3,6) ne by (auto simp: full_name_cases)
  with e show ?thesis by simp
qed

theorem full_name_same_name_deterministic_witness:
  "full_name remdups \<lparr>ref_id = Some 9, ref_extra = Some [1]\<rparr>
      [(9, ''Rifle''), (5, ''Camouflage''), (9, ''Rifle'')] [(1, ''AP'')] = Inr ''Rifle(AP)'' \<and>
   full_name (\<lambda>xs. rev (remdups xs)) \<lparr>ref_id = Some 9, ref_extra = Some [1]\<rparr>
      [(9, ''Rifle''), (5, ''Camouflage''), (9, ''Rifle'')] [(1, ''AP'')] = Inr ''Rifle(AP)''"
  using full_name_same_name_deterministic[OF set_order_ok_remdups set_order_ok_rev_remdups,
     of "\<lparr>ref_id = Some 9, ref_extra = Some [1]\<rparr>" 9 "''Rifle''"
        "[(9, ''Rifle''), (5, ''Camouflage''), (9, ''Rifle'')]" "[(1, ''AP'')]"]
  by (simp add: extras_of_def names_with_id_in_def)

text \<open>
  Two rows with id 9 and different names: two admissible iteration orders of the set
  give two different results.
\<close>

theorem full_name_set_order_counterexample:
  "set_order_ok remdups \<and> set_order_ok (\<lambda>xs. rev (remdups xs)) \<and>
   full_name remdups \<lparr>ref_id = Some 9, ref_extra = None\<rparr>
      [(9, ''Rifle''), (9, ''Combi Rifle'')] [] = Inr ''Rifle'' \<and>
   full_name (\<lambda>xs. rev (remdups xs)) \<lparr>ref_id = Some 9, ref_extra = None\<rparr>
      [(9, ''Rifle''), (9, ''Combi Rifle'')] [] = Inr ''Combi Rifle''"
  by (simp add: set_order_ok_remdups set_order_ok_rev_remdups full_name_def names_with_id_def
      extras_of_def)

subsection \<open>C6: suffixes of the extras\<close>

text \<open>
  Claim C6, as the code has it: for a reference whose id occurs in the catalog, the
  result starts with a base name of that id. With a non-empty extra list and a non-empty
  extras catalog it is followed by \<open>(name)\<close> for each row of the extras catalog whose id
  is in the extra list, one suffix for each such row and in the order of the extras
  catalog, not one for each extra id. With a non-empty extra list and an empty extras
  catalog the lookup raises KeyError. With an empty or absent extra list the result is
  the base name alone.
\<close>

theorem full_name_extras_suffixes:
  assumes "set_order_ok so" and "ref_id r = Some i" and "i \<in> fst ` set lookup"
  shows "\<exists>base rest.
           so (map snd (filter (\<lambda>row. fst row = i) lookup)) = base # rest \<and>
           (i, base) \<in> set lookup \<and>
           (\<forall>ex. ref_extra r = Some ex \<and> ex \<noteq> [] \<and> extras_lookup \<noteq> [] \<longrightarrow>
              full_name so r lookup extras_lookup =
                Inr (base @ concat (map (\<lambda>name. ''('' @ name @ '')'')
                       (map snd (filter (\<lambda>row. fst row \<in> set ex) extras_lookup))))) \<and>
           (\<forall>ex. ref_extra r = Some ex \<and> ex \<noteq> [] \<and> extras_lookup = [] \<longrightarrow>
              full_name so r lookup extras_lookup = Inl KeyError) \<and>
           (ref_extra r = None \<or> ref_extra r = Some [] \<longrightarrow>
              full_name so r lookup extras_lookup = Inr base)"
proof -
  have ne: "lookup \<noteq> []" using assms(3) by auto
  from base_name_exists[OF assms(1,3)] obtain base rest where
    br: "so (matching_names lookup i) = base # rest" "(i, base) \<in> set lookup" by blast
  have a: "\<forall>ex. ref_extra r = Some ex \<and> ex \<noteq> [] \<and> extras_lookup \<noteq> [] \<longrightarrow>
              full_name so r lookup extras_lookup =
                Inr (base @ concat (map (\<lambda>name. ''('' @ name @ '')'')
                       (map snd (filter (\<lambda>row. fst row \<in> set ex) extras_lookup))))"
    using br(1) assms(2) ne by (simp add: full_name_cases suffixes_def extra_ids_def)
  have k: "\<forall>ex. ref_extra r = Some ex \<and> ex \<noteq> [] \<and> extras_lookup = [] \<longrightarrow>
              full_name so r lookup extras_lookup = Inl KeyError"
    using assms(2) by (simp add: full_name_cases extra_ids_def)
  have b: "ref_extra r = None \<or> ref_extra r = Some [] \<longrightarrow>
              full_name so r lookup extras_lookup = Inr base"
    using br(1) assms(2) ne by (auto simp: full_name_cases suffixes_def extra_ids_def)
  from br(1) have "so (map snd (filter (\<lambda>row. fst row = i) lookup)) = base # rest"
    by (simp add: matching_names_def)
  with br(2) a k b show ?thesis by blast
qed

theorem full_name_extras_suffixes_witness:
  "full_name remdups \<lparr>ref_id = Some 9, ref_extra = Some [2, 1]\<rparr>
      [(5, ''Camouflage''), (9, ''Rifle'')] [(1, ''AP''), (2, ''Shock'')] = Inr ''Rifle(AP)(Shock)'' \<and>
   full_name remdups \<lparr>ref_id = Some 9, ref_extra = Some []\<rparr>
      [(5, ''Camouflage''), (9, ''Rifle'')] [(1, ''AP''), (2, ''Shock'')] = Inr ''Rifle'' \<and>
   full_name remdups \<lparr>ref_id = Some 9, ref_extra = Some [2, 1]\<rparr>
      [(5, ''Camouflage''), (9, ''Rifle'')] [] = Inl KeyError"
  using full_name_extras_suffixes[OF set_order_ok_remdups,
      of "\<lparr>ref_id = Some 9, ref_extra = Some [2, 1]\<rparr>" 9
         "[(5, ''Camouflage''), (9, ''Rifle'')]" "[(1, ''AP''), (2, ''Shock'')]"]
    full_name_extras_suffixes[OF set_order_ok_remdups,
      of "\<lparr>ref_id = Some 9, ref_extra = Some []\<rparr>" 9
         "[(5, ''Camouflage''), (9, ''Rifle'')]" "[(1, ''AP''), (2, ''Shock'')]"]
    full_name_extras_suffixes[OF set_order_ok_remdups,
      of "\<lparr>ref_id = Some 9, ref_extra = Some [2, 1]\<rparr>" 9
         "[(5, ''Camouflage''), (9, ''Rifle'')]" "[]"]
  by simp

text \<open>
  Three extra ids, one suffix: the extra 7 is in no row of the extras catalog, and the
  repeated extra 1 selects its row once.
\<close>

theorem full_name_extras_count_counterexample:
  "full_name remdups \<lparr>ref_id = Some 9, ref_extra = Some [7, 1, 1]\<rparr>
      [(9, ''Rifle'')] [(1, ''AP'')] = Inr ''Rifle(AP)''"
  by (simp add: full_name_def names_with_id_def extras_of_def names_with_id_in_def)

subsection \<open>C7: category codes\<close>

text \<open>
  Claim C7, as the code has it: the codes 1 to 7 are mapped to LI, MI, HI, TAG, REM, SK,
  WB, and every other integer yields no label: the dict subscript raises KeyError. The
  code defines no error of its own for an unknown code.
\<close>

theorem convert_type_ids_exact:
  "convert_type_ids 1 = Inr ''LI'' \<and> convert_type_ids 2 = Inr ''MI'' \<and>
   convert_type_ids 3 = Inr ''HI'' \<and> convert_type_ids 4 = Inr ''TAG'' \<and>
   convert_type_ids 5 = Inr ''REM'' \<and> convert_type_ids 6 = Inr ''SK'' \<and>
   convert_type_ids 7 = Inr ''WB'' \<and>
   (type_id < 1 \<or> 7 < type_id \<longrightarrow> convert_type_ids type_id = Inl KeyError)"
  by (simp add: convert_type_ids_def type_id_to_name_def)

theorem convert_type_ids_exact_witness:
  "convert_type_ids 4 = Inr ''TAG'' \<and> convert_type_ids 0 = Inl KeyError \<and>
   convert_type_ids 8 = Inl KeyError \<and> convert_type_ids (- 3) = Inl KeyError"
  using convert_type_ids_exact[of 0] convert_type_ids_exact[of 8] convert_type_ids_exact[of "- 3"]
  by simp

text \<open>
  The failure on the code 9 is the plain KeyError of a dict subscript, the same value
  that a reference without the key \<open>id\<close> yields in \<open>full_name\<close>.
\<close>

theorem convert_type_ids_key_error_counterexample:
  "convert_type_ids 9 = Inl KeyError \<and>
   full_name remdups \<lparr>ref_id = None, ref_extra = Some [1]\<rparr> [(9, ''Rifle'')] [(1, ''AP'')]
     = Inl KeyError"
  by (simp add: convert_type_ids_def type_id_to_name_def full_name_def)

subsection \<open>C8: order counts\<close>

text \<open>
  Claim C8: each of the four order columns is the sum of \<open>total\<close> over the entries whose
  type is exactly REGULAR, IRREGULAR, IMPETUOUS or LIEUTENANT respectively; entries of
  any other type (also a different spelling such as \<open>Regular\<close>) add nothing; and the
  list REGULAR 2, IRREGULAR 1, REGULAR 1 gives 3, 1, 0, 0.
\<close>

theorem add_order_columns_sums:
  "Regular_Orders (add_order_columns orders) =
     (\<Sum>order\<leftarrow>orders. if order_type order = ''REGULAR'' then order_total order else 0) \<and>
   Irregular_Orders (add_order_columns orders) =
     (\<Sum>order\<leftarrow>orders. if order_type order = ''IRREGULAR'' then order_total order else 0) \<and>
   Impetuous_Orders (add_order_columns orders) =
     (\<Sum>order\<leftarrow>orders. if order_type order = ''IMPETUOUS'' then order_total order else 0) \<and>
   Lieutenant_Orders (add_order_columns orders) =
     (\<Sum>order\<leftarrow>orders. if order_type order = ''LIEUTENANT'' then order_total order else 0) \<and>
   add_order_columns
     (filter (\<lambda>order. order_type order \<in> {''REGULAR'', ''IRREGULAR'', ''IMPETUOUS'', ''LIEUTENANT''}) orders)
     = add_order_columns orders \<and>
   add_order_columns
     [\<lparr>order_type = ''REGULAR'', order_total = 2\<rparr>, \<lparr>order_type = ''IRREGULAR'', order_total = 1\<rparr>,
      \<lparr>order_type = ''REGULAR'', order_total = 1\<rparr>]
     = \<lparr>Regular_Orders = 3, Irregular_Orders = 1, Impetuous_Orders = 0, Lieutenant_Orders = 0\<rparr> \<and>
   add_order_columns [\<lparr>order_type = ''Regular'', order_total = 2\<rparr>]
     = \<lparr>Regular_Orders = 0, Irregular_Orders = 0, Impetuous_Orders = 0, Lieutenant_Orders = 0\<rparr>"
proof -
  let ?P = "\<lambda>t. t = ''REGULAR'' \<or> t = ''IRREGULAR'' \<or> t = ''IMPETUOUS'' \<or> t = ''LIEUTENANT''"
  have cols: "add_order_columns os =
      \<lparr>Regular_Orders = get_orders_of_type os ''REGULAR'',
       Irregular_Orders = get_orders_of_type os ''IRREGULAR'',
       Impetuous_Orders = get_orders_of_type os ''IMPETUOUS'',
       Lieutenant_Orders = get_orders_of_type os ''LIEUTENANT''\<rparr>" for os
    by (simp add: add_order_columns_def)
  have f: "get_orders_of_type (filter (\<lambda>order. ?P (order_type order)) orders) t =
           get_orders_of_type orders t" if "?P t" for t
    using get_orders_of_type_filter[of ?P t orders] that by simp
  have "add_order_columns
     (filter (\<lambda>order. order_type order \<in> {''REGULAR'', ''IRREGULAR'', ''IMPETUOUS'', ''LIEUTENANT''}) orders)
     = add_order_columns orders"
    by (simp add: cols f)
  moreover have "add_order_columns
     [\<lparr>order_type = ''REGULAR'', order_total = 2\<rparr>, \<lparr>order_type = ''IRREGULAR'', order_total = 1\<rparr>,
      \<lparr>order_type = ''REGULAR'', order_total = 1\<rparr>]
     = \<lparr>Regular_Orders = 3, Irregular_Orders = 1, Impetuous_Orders = 0, Lieutenant_Orders = 0\<rparr>"
    by (simp add: cols get_orders_of_type_def)
  moreover have "add_order_columns [\<lparr>order_type = ''Regular'', order_total = 2\<rparr>]
     = \<lparr>Regular_Orders = 0, Irregular_Orders = 0, Impetuous_Orders = 0, Lieutenant_Orders = 0\<rparr>"
    by (simp add: cols get_orders_of_type_def)
  ultimately show ?thesis
    by (simp add: cols get_orders_of_type_if)
qed

subsection \<open>C10: extras without a catalog entry\<close>

text \<open>
  Claim C10, as the code has it: for a reference whose id occurs in the catalog and a
  non-empty extras catalog, resolution succeeds whatever the extra list holds; the
  number of suffixes is the number of rows of the extras catalog whose id is in the
  extra list; and the extra ids that occur in no row of the extras catalog can be
  removed from the list without changing the suffixes. On an empty extras catalog a
  non-empty extra list raises KeyError.
\<close>

theorem full_name_unmatched_extras_skipped:
  assumes "set_order_ok so" and "ref_id r = Some i" and "i \<in> fst ` set lookup"
    and "extras_lookup \<noteq> []"
  shows "\<exists>base sfx.
           extras_of r extras_lookup = Inr sfx \<and>
           full_name so r lookup extras_lookup = Inr (base @ concat sfx) \<and>
           length sfx = length (filter (\<lambda>row. fst row \<in> set (extra_ids r)) extras_lookup) \<and>
           extras_of (r\<lparr>ref_extra := Some (filter (\<lambda>x. x \<in> fst ` set extras_lookup) (extra_ids r))\<rparr>)
             extras_lookup = extras_of r extras_lookup"
proof -
  have ne: "lookup \<noteq> []" using assms(3) by auto
  from base_name_exists[OF assms(1,3)] obtain base rest where
    "so (matching_names lookup i) = base # rest" by blast
  then have f: "full_name so r lookup extras_lookup =
                  Inr (base @ concat (suffixes r extras_lookup))"
    using assms(2,4) ne by (simp add: full_name_cases)
  have e: "extras_of r extras_lookup = Inr (suffixes r extras_lookup)"
    using assms(4) by (simp add: extras_of_eq)
  from e f suffixes_length[of r extras_lookup] extras_of_drop_unmatched[OF assms(4), of r]
  show ?thesis by blast
qed

theorem full_name_unmatched_extras_skipped_witness:
  "full_name remdups \<lparr>ref_id = Some 9, ref_extra = Some [7, 1]\<rparr>
      [(9, ''Rifle'')] [(1, ''AP''), (2, ''Shock'')] = Inr ''Rifle(AP)'' \<and>
   extras_of \<lparr>ref_id = Some 9, ref_extra = Some [7, 1]\<rparr> [(1, ''AP''), (2, ''Shock'')] = Inr [''(AP)''] \<and>
   full_name remdups \<lparr>ref_id = Some 9, ref_extra = Some [7]\<rparr>
      [(9, ''Rifle'')] [(1, ''AP''), (2, ''Shock'')] = Inr ''Rifle'' \<and>
   full_name remdups \<lparr>ref_id = Some 9, ref_extra = Some [1]\<rparr>
      [(9, ''Rifle'')] [(1, ''AP''), (1, ''AP+Shock'')] = Inr ''Rifle(AP)(AP+Shock)'' \<and>
   extras_of \<lparr>ref_id = Some 9, ref_extra = Some [1]\<rparr> [(1, ''AP''), (1, ''AP+Shock'')]
     = Inr [''(AP)'', ''(AP+Shock)'']"
  using full_name_unmatched_extras_skipped[OF set_order_ok_remdups,
      of "\<lparr>ref_id = Some 9, ref_extra = Some [7, 1]\<rparr>" 9 "[(9, ''Rifle'')]"
         "[(1, ''AP''), (2, ''Shock'')]"]
    full_name_unmatched_extras_skipped[OF set_order_ok_remdups,
      of "\<lparr>ref_id = Some 9, ref_extra = Some [7]\<rparr>" 9 "[(9, ''Rifle'')]"
         "[(1, ''AP''), (2, ''Shock'')]"]
    full_name_unmatched_extras_skipped[OF set_order_ok_remdups,
      of "\<lparr>ref_id = Some 9, ref_extra = Some [1]\<rparr>" 9 "[(9, ''Rifle'')]"
         "[(1, ''AP''), (1, ''AP+Shock'')]"]
  by (simp add: extras_of_def names_with_id_in_def extra_ids_def names_with_id_def full_name_def)

text \<open>
  An extras catalog built from the empty list: the extra id 1 has no match there, and
  the lookup raises instead of skipping it.
\<close>

theorem full_name_empty_extras_counterexample:
  "full_name remdups \<lparr>ref_id = Some 9, ref_extra = Some [1]\<rparr> [(9, ''Rifle'')] []
     = Inl KeyError"
  by (simp add: full_name_def names_with_id_def extras_of_def names_with_id_in_def)

end
